theory Spec2Isabelle
  imports Main
begin

section \<open>The webhook handler of gmtm: a shallow embedding of api/handler.go\<close>

text \<open>
  The repository holds two near-duplicate implementations of one Telegram webhook handler.
  The first (with \<open>getKeywords\<close>, and a \<open>sendToClient\<close> that returns the response body and
  an error) keeps the source's names here; the second (whose \<open>sendToClient\<close> returns nothing
  and discards every error) has the suffix \<open>2\<close>. \<open>getMovies\<close> has the same text in both and
  is embedded once.

  Go strings are byte sequences, so a \<open>string\<close> here is the list of the bytes. Go's \<open>int\<close> is
  embedded as \<open>int\<close>: the program does no arithmetic on the identifiers it carries.
\<close>

subsection \<open>Constants\<close>

definition TELEGRAM_API_BASE_URL :: string where
  "TELEGRAM_API_BASE_URL = ''https://api.telegram.org/bot''"

definition TELEGRAM_API_SEND_MESSAGE :: string where
  "TELEGRAM_API_SEND_MESSAGE = ''/sendMessage''"

definition BOT_TOKEN_ENV :: string where
  "BOT_TOKEN_ENV = ''TELEGRAM_BOT_TOKEN''"

definition IMDB_URL :: string where
  "IMDB_URL = ''https://www.imdb.com/search/keyword/?keywords=''"

text \<open>The greeting both implementations send; the source writes the literal out at each use.\<close>

definition greeting :: string where
  "greeting = ''Hey dude!'' @ [CHR 0x0A] @
     ''Give me some keywords (comma delimited) to recommend you movies :D''"

subsection \<open>The message model\<close>

record Chat =
  ID :: int

record Audio =
  FileID :: string
  Duration :: int

text \<open>\<open>type Voice Audio\<close>: the same fields under another name.\<close>

type_synonym Voice = Audio

record Document =
  FileID :: string
  FileName :: string

record Message =
  Text :: string
  Chat :: Chat
  Audio :: Audio
  Voice :: Voice
  Document :: Document

record Update =
  UpdateID :: int
  Message :: Message

subsection \<open>Errors and panics\<close>

text \<open>
  A Go \<open>error\<close> value, by where it comes from: the JSON decoder, \<open>errors.New\<close>,
  \<open>http.PostForm\<close> or \<open>io.ReadAll\<close>. \<open>Error\<close> is its message (\<open>err.Error()\<close>).
\<close>

datatype error =
    JSONError string
  | New string
  | PostFormError string
  | ReadAllError string

fun Error :: "error \<Rightarrow> string" where
  "Error (JSONError m) = m"
| "Error (New m) = m"
| "Error (PostFormError m) = m"
| "Error (ReadAllError m) = m"

text \<open>
  The run-time panics the program can raise: indexing a slice out of range, and selecting a
  field of a nil pointer. A function that can panic returns \<open>panic + 'a\<close>.
\<close>

datatype panic = IndexOutOfRange | NilPointerDereference

subsection \<open>What lies outside the repository\<close>

text \<open>
  A parsed HTML document as the scraper sees it: text, comment and element nodes; an element
  has a tag, its attributes and its children in document order.
\<close>

datatype node =
    TextNode string
  | CommentNode string
  | ElementNode string "(string \<times> string) list" "node list"

text \<open>
  An HTTP response as the program uses it: the status code, and what \<open>io.ReadAll\<close> of the
  body gives (\<open>Inl\<close> the read error, \<open>Inr\<close> the bytes).
\<close>

record Response =
  StatusCode :: int
  Body :: "string + string"

text \<open>
  What \<open>http.PostForm\<close> returns, as \<open>net/http\<close> documents it: a nil response and an error
  when the call obtained no response; a response and a nil error; and, when the client's
  redirect policy gives up, the last response (its body already closed) together with an error.
\<close>

datatype post_result =
    PostFailed string
  | PostResponded Response
  | PostRedirectRefused Response string

fun postErr :: "post_result \<Rightarrow> string option" where
  "postErr (PostFailed e) = Some e"
| "postErr (PostResponded r) = None"
| "postErr (PostRedirectRefused r e) = Some e"

fun postResponse :: "post_result \<Rightarrow> Response option" where
  "postResponse (PostFailed e) = None"
| "postResponse (PostResponded r) = Some r"
| "postResponse (PostRedirectRefused r e) = Some r"

type_synonym Values = "(string \<times> string list) list"

text \<open>
  The environment of one request:
  \<^item> \<open>getenv\<close>: the process environment (\<open>os.Getenv\<close>);
  \<^item> \<open>jsonDecode\<close>: \<open>json.NewDecoder(r.Body).Decode(&update)\<close> on the request body: the
    \<open>Update\<close> as the decoder left it, and the decoder's error if it reported one;
  \<^item> \<open>unicodeLower\<close>: \<open>strings.Map(unicode.ToLower, s)\<close>, the path \<open>strings.ToLower\<close> takes
    for a string that is not all ASCII (the Unicode tables are not part of the repository);
  \<^item> \<open>postForm\<close>: the outcome of the \<open>n\<close>-th \<open>http.PostForm\<close> of the request (counted from
    \<open>0\<close>) to a URL with form values;
  \<^item> \<open>visit\<close>: the scraper's fetch of a URL: \<open>Inl\<close> the error, or \<open>Inr\<close> the top-level nodes
    of the parsed page.
\<close>

record env =
  getenv :: "string \<Rightarrow> string"
  jsonDecode :: "string \<Rightarrow> Update \<times> string option"
  unicodeLower :: "string \<Rightarrow> string"
  postForm :: "nat \<Rightarrow> string \<Rightarrow> Values \<Rightarrow> post_result"
  visit :: "string \<Rightarrow> string + node list"

text \<open>
  What a request does to the outside, in order: the lines it logs, the POSTs it makes (URL,
  form values and the outcome) and the URLs the scraper visits.
\<close>

record effects =
  logs :: "string list"
  posts :: "(string \<times> Values \<times> post_result) list"
  visited :: "string list"

definition no_effects :: effects where
  "no_effects = \<lparr>logs = [], posts = [], visited = []\<rparr>"

definition logPrintf :: "string \<Rightarrow> effects \<Rightarrow> effects" where
  "logPrintf line fx = fx\<lparr>logs := logs fx @ [line]\<rparr>"

definition httpPostForm :: "env \<Rightarrow> string \<Rightarrow> Values \<Rightarrow> effects \<Rightarrow> post_result \<times> effects" where
  "httpPostForm e u form fx =
     (let res = postForm e (length (posts fx)) u form
      in (res, fx\<lparr>posts := posts fx @ [(u, form, res)]\<rparr>))"

text \<open>
  The \<open>http.ResponseWriter\<close> of the inbound call: the status code written, if any, and the
  body bytes written.
\<close>

record ResponseWriter =
  wroteHeader :: "int option"
  written :: string

text \<open>\<open>var telegramAPI = TELEGRAM_API_BASE_URL + os.Getenv(BOT_TOKEN_ENV) + TELEGRAM_API_SEND_MESSAGE\<close>\<close>

definition telegramAPI :: "env \<Rightarrow> string" where
  "telegramAPI e = TELEGRAM_API_BASE_URL @ getenv e BOT_TOKEN_ENV @ TELEGRAM_API_SEND_MESSAGE"

subsection \<open>The standard-library string functions the program calls\<close>

text \<open>
  \<open>strings.ReplaceAll(s, old, new)\<close> for a one-byte \<open>old\<close>: every occurrence of the byte is
  replaced, left to right.
\<close>

fun ReplaceAll :: "string \<Rightarrow> char \<Rightarrow> string \<Rightarrow> string" where
  "ReplaceAll [] old new = []"
| "ReplaceAll (c # s) old new =
     (if c = old then new @ ReplaceAll s old new else c # ReplaceAll s old new)"

text \<open>
  \<open>strings.Split(s, sep)\<close> for a one-byte \<open>sep\<close>: the substrings between the separators,
  one more than there are separators. \<open>SplitFrom\<close> is the scan, with the bytes of the
  current substring in \<open>cur\<close>.
\<close>

fun SplitFrom :: "string \<Rightarrow> string \<Rightarrow> char \<Rightarrow> string list" where
  "SplitFrom cur [] sep = [cur]"
| "SplitFrom cur (c # s) sep =
     (if c = sep then cur # SplitFrom [] s sep else SplitFrom (cur @ [c]) s sep)"

definition Split :: "string \<Rightarrow> char \<Rightarrow> string list" where
  "Split s sep = SplitFrom [] s sep"

text \<open>
  \<open>strings.ToLower\<close>: a string of ASCII bytes only has \<open>'a' - 'A'\<close> added to each of its
  bytes in \<open>'A'..'Z'\<close>; any other string goes through the Unicode tables.
\<close>

definition lowerByte :: "char \<Rightarrow> char" where
  "lowerByte c =
     (case map_of (zip ''ABCDEFGHIJKLMNOPQRSTUVWXYZ'' ''abcdefghijklmnopqrstuvwxyz'') c of
        Some l \<Rightarrow> l
      | None \<Rightarrow> c)"

definition ToLower :: "env \<Rightarrow> string \<Rightarrow> string" where
  "ToLower e s = (if list_all (\<lambda>c. \<not> digit7 c) s then map lowerByte s else unicodeLower e s)"

text \<open>
  \<open>strings.TrimSpace\<close>: the leading and trailing runes for which \<open>unicode.IsSpace\<close> holds are
  cut off. \<open>spaceRunes\<close> lists the UTF-8 encodings of those runes: U+0009 to U+000D, U+0020,
  U+0085, U+00A0, U+1680, U+2000 to U+200A, U+2028, U+2029, U+202F, U+205F and U+3000.
\<close>

definition spaceRunes :: "string list" where
  "spaceRunes =
     [[CHR 0x09], [CHR 0x0A], [CHR 0x0B], [CHR 0x0C], [CHR 0x0D], [CHR 0x20],
      [CHR 0xC2, CHR 0x85], [CHR 0xC2, CHR 0xA0],
      [CHR 0xE1, CHR 0x9A, CHR 0x80],
      [CHR 0xE2, CHR 0x80, CHR 0x80], [CHR 0xE2, CHR 0x80, CHR 0x81],
      [CHR 0xE2, CHR 0x80, CHR 0x82], [CHR 0xE2, CHR 0x80, CHR 0x83],
      [CHR 0xE2, CHR 0x80, CHR 0x84], [CHR 0xE2, CHR 0x80, CHR 0x85],
      [CHR 0xE2, CHR 0x80, CHR 0x86], [CHR 0xE2, CHR 0x80, CHR 0x87],
      [CHR 0xE2, CHR 0x80, CHR 0x88], [CHR 0xE2, CHR 0x80, CHR 0x89],
      [CHR 0xE2, CHR 0x80, CHR 0x8A],
      [CHR 0xE2, CHR 0x80, CHR 0xA8], [CHR 0xE2, CHR 0x80, CHR 0xA9],
      [CHR 0xE2, CHR 0x80, CHR 0xAF], [CHR 0xE2, CHR 0x81, CHR 0x9F],
      [CHR 0xE3, CHR 0x80, CHR 0x80]]"

function trimLeading :: "string list \<Rightarrow> string \<Rightarrow> string" where
  "trimLeading ps s =
     (case find (\<lambda>p. p \<noteq> [] \<and> take (length p) s = p) ps of
        None \<Rightarrow> s
      | Some p \<Rightarrow> trimLeading ps (drop (length p) s))"
  by pat_completeness auto
termination
proof (relation "measure (\<lambda>(ps, s). length s)")
  show "wf (measure (\<lambda>(ps, s). length s))" by simp
next
  fix ps :: "string list" and s p :: string
  assume "find (\<lambda>p. p \<noteq> [] \<and> take (length p) s = p) ps = Some p"
  then have p: "p \<noteq> []" "take (length p) s = p"
    by (auto simp: find_Some_iff)
  have "length (take (length p) s) = length p"
    using p(2) by simp
  then have "length p \<le> length s" by simp
  moreover have "0 < length p" using p(1) by simp
  ultimately have "length s - length p < length s"
    by linarith
  then show "((ps, drop (length p) s), (ps, s)) \<in> measure (\<lambda>(ps, s). length s)"
    by simp
qed

declare trimLeading.simps [simp del]

definition TrimSpace :: "string \<Rightarrow> string" where
  "TrimSpace s = rev (trimLeading (map rev spaceRunes) (rev (trimLeading spaceRunes s)))"

text \<open>\<open>strconv.Itoa\<close>: the decimal digits, after a minus sign for a negative number.\<close>

function uitoa :: "nat \<Rightarrow> string" where
  "uitoa n =
     (if n < 10 then [''0123456789'' ! n]
      else uitoa (n div 10) @ [''0123456789'' ! (n mod 10)])"
  by pat_completeness auto
termination
  by (relation "measure id") auto

declare uitoa.simps [simp del]

definition Itoa :: "int \<Rightarrow> string" where
  "Itoa i = (if i < 0 then CHR ''-'' # uitoa (nat (- i)) else uitoa (nat i))"

text \<open>
  \<open>url.Values.Add(key, value)\<close>: the value is appended to the values of the key. The form
  values are kept as an association list, one entry per key.
\<close>

fun Add :: "Values \<Rightarrow> string \<Rightarrow> string \<Rightarrow> Values" where
  "Add [] k v = [(k, [v])]"
| "Add ((k', vs) # rest) k v =
     (if k' = k then (k', vs @ [v]) # rest else (k', vs) # Add rest k v)"

subsection \<open>The scraping library, as the program uses it\<close>

text \<open>
  The one selector the program registers, \<open>h3[class="lister-item-header"]\<close>: an \<open>h3\<close> element
  whose \<open>class\<close> attribute is exactly that string.
\<close>

fun matchesSelector :: "node \<Rightarrow> bool" where
  "matchesSelector (ElementNode tag attrs cs) =
     (tag = ''h3'' \<and> map_of attrs ''class'' = Some ''lister-item-header'')"
| "matchesSelector (TextNode d) = False"
| "matchesSelector (CommentNode d) = False"

text \<open>The nodes below a node, in document order.\<close>

fun descendants :: "node \<Rightarrow> node list" where
  "descendants (ElementNode tag attrs cs) = concat (map (\<lambda>c. c # descendants c) cs)"
| "descendants (TextNode d) = []"
| "descendants (CommentNode d) = []"

text \<open>\<open>doc.Find(selector)\<close>: the matching elements of the page, in document order.\<close>

definition Find :: "node list \<Rightarrow> node list" where
  "Find doc = filter matchesSelector (concat (map (\<lambda>n. n # descendants n) doc))"

text \<open>\<open>Selection.Children()\<close> of one element: its child elements (no text, no comments).\<close>

fun isElement :: "node \<Rightarrow> bool" where
  "isElement (ElementNode tag attrs cs) = True"
| "isElement (TextNode d) = False"
| "isElement (CommentNode d) = False"

fun Children :: "node \<Rightarrow> node list" where
  "Children (ElementNode tag attrs cs) = filter isElement cs"
| "Children (TextNode d) = []"
| "Children (CommentNode d) = []"

text \<open>
  \<open>Selection.Text()\<close>: the text nodes of every node of the selection and of all their
  descendants, concatenated in document order.
\<close>

fun nodeText :: "node \<Rightarrow> string" where
  "nodeText (TextNode d) = d"
| "nodeText (CommentNode d) = []"
| "nodeText (ElementNode tag attrs cs) = concat (map nodeText cs)"

definition selectionText :: "node list \<Rightarrow> string" where
  "selectionText ns = concat (map nodeText ns)"

subsection \<open>Keyword extraction and movie lookup\<close>

text \<open>
  \<open>getKeywords\<close>: \<open>strings.ReplaceAll(incomingText, " ", "")\<close>, then
  \<open>strings.Split(incomingText, ",")\<close>.
\<close>

definition getKeywords :: "string \<Rightarrow> string list" where
  "getKeywords incomingText = Split (ReplaceAll incomingText (CHR '' '') []) (CHR '','')"

text \<open>\<open>keywords[i]\<close>: Go checks the index and panics when it is out of range.\<close>

definition index :: "'a list \<Rightarrow> nat \<Rightarrow> panic + 'a" where
  "index xs i = (if i < length xs then Inr (xs ! i) else Inl IndexOutOfRange)"

text \<open>
  The loop of \<open>getMovies\<close>:
  \<open>for i := 1; i < len(keywords); i++ { URL += "%2C" + keywords[i] }\<close>.
\<close>

function appendKeywords :: "string list \<Rightarrow> nat \<Rightarrow> string \<Rightarrow> panic + string" where
  "appendKeywords keywords i URL =
     (if i < length keywords then
        (case index keywords i of
           Inl p \<Rightarrow> Inl p
         | Inr k \<Rightarrow> appendKeywords keywords (i + 1) (URL @ ''%2C'' @ k))
      else Inr URL)"
  by pat_completeness auto
termination
  by (relation "measure (\<lambda>(keywords, i, URL). length keywords - i)") auto

declare appendKeywords.simps [simp del]

text \<open>
  The callback \<open>getMovies\<close> registers for the selector:
  \<open>movies += strings.TrimSpace(element.DOM.Children().Text()) + "\n"\<close>.
\<close>

definition onHTML :: "string \<Rightarrow> node \<Rightarrow> string" where
  "onHTML movies element = movies @ TrimSpace (selectionText (Children element)) @ [CHR 0x0A]"

text \<open>
  \<open>c.Visit(URL)\<close>: when the fetch fails no callback runs; otherwise the callback runs on every
  matching element, in document order. The program drops the error \<open>Visit\<close> returns.
\<close>

definition Visit :: "env \<Rightarrow> string \<Rightarrow> string \<Rightarrow> string" where
  "Visit e URL movies =
     (case visit e URL of
        Inl err \<Rightarrow> movies
      | Inr doc \<Rightarrow> foldl onHTML movies (Find doc))"

definition getMovies :: "env \<Rightarrow> string list \<Rightarrow> effects \<Rightarrow> (panic + string) \<times> effects" where
  "getMovies e keywords fx =
     (case index keywords 0 of
        Inl p \<Rightarrow> (Inl p, fx)
      | Inr k \<Rightarrow>
          (case appendKeywords keywords 1 (IMDB_URL @ k) of
             Inl p \<Rightarrow> (Inl p, fx)
           | Inr URL \<Rightarrow> (Inr (Visit e URL []), fx\<lparr>visited := visited fx @ [URL]\<rparr>)))"

subsection \<open>The first implementation\<close>

definition parseIncomingRequest :: "env \<Rightarrow> string \<Rightarrow> effects \<Rightarrow> (error + Update) \<times> effects" where
  "parseIncomingRequest e body fx =
     (case jsonDecode e body of
        (update, Some err) \<Rightarrow>
          (Inl (JSONError err), logPrintf (''could not decode incoming update '' @ err) fx)
      | (update, None) \<Rightarrow>
          if UpdateID update = 0 then
            (Inl (New ''invalid update id. 0 indicates failure to parse incoming update''),
             logPrintf ''invalid update id, got update id = 0'' fx)
          else (Inr update, fx))"

text \<open>
  The dispatch of \<open>sendToClient\<close>: \<open>http.PostForm\<close>, \<open>io.ReadAll\<close> of the response body, and
  the value returned (a Go error comes with the empty string); \<open>if err != nil\<close> after
  \<open>PostForm\<close> holds in both cases that carry an error. The source has this text twice, in the
  \<open>"/start"\<close> branch and after the \<open>switch\<close>; only the form values differ.
\<close>

definition dispatch :: "env \<Rightarrow> Values \<Rightarrow> effects \<Rightarrow> (error + string) \<times> effects" where
  "dispatch e sendValues fx =
     (let (res, fx1) = httpPostForm e (telegramAPI e) sendValues fx
      in case res of
           PostFailed err \<Rightarrow>
             (Inl (PostFormError err),
              logPrintf (''error when posting text to the chat: '' @ err) fx1)
         | PostRedirectRefused response err \<Rightarrow>
             (Inl (PostFormError err),
              logPrintf (''error when posting text to the chat: '' @ err) fx1)
         | PostResponded response \<Rightarrow>
             (case Body response of
                Inl err \<Rightarrow>
                  (Inl (ReadAllError err),
                   logPrintf (''error in parsing telegram response '' @ err) fx1)
              | Inr body \<Rightarrow>
                  (Inr body, logPrintf (''body of the telegram response: '' @ body) fx1)))"

definition sendToClient ::
  "env \<Rightarrow> int \<Rightarrow> string \<Rightarrow> effects \<Rightarrow> (panic + (error + string)) \<times> effects" where
  "sendToClient e chatID incomingText fx =
     (if incomingText = ''/start'' then
        (let (r, fx1) = dispatch e [(''chat_id'', [Itoa chatID]), (''text'', [greeting])] fx
         in (Inr r, fx1))
      else
        (let sendValues = [(''chat_id'', [Itoa chatID])]
         in if incomingText = ''start'' then
              (let (r, fx1) = dispatch e (Add sendValues ''text'' greeting) fx
               in (Inr r, fx1))
            else
              (case getMovies e (getKeywords incomingText) fx of
                 (Inl p, fx1) \<Rightarrow> (Inl p, fx1)
               | (Inr movies, fx1) \<Rightarrow>
                   (let (r, fx2) = dispatch e (Add sendValues ''text'' movies) fx1
                    in (Inr r, fx2)))))"

text \<open>
  \<open>Handler(w, r)\<close> on the request body \<open>r.Body\<close>: how the call ends (\<open>Inr ()\<close> when it
  returns), the response writer it leaves, and what it did.
\<close>

definition Handler ::
  "env \<Rightarrow> ResponseWriter \<Rightarrow> string \<Rightarrow> (panic + unit) \<times> ResponseWriter \<times> effects" where
  "Handler e w body =
     (case parseIncomingRequest e body no_effects of
        (Inl err, fx1) \<Rightarrow>
          (Inr (), w, logPrintf (''error parsing incoming update, '' @ Error err) fx1)
      | (Inr update, fx1) \<Rightarrow>
          (case sendToClient e (ID (Chat (Message update)))
                  (ToLower e (Text (Message update))) fx1 of
             (Inl p, fx2) \<Rightarrow> (Inl p, w, fx2)
           | (Inr (Inl err), fx2) \<Rightarrow>
               (Inr (), w,
                logPrintf (''got error '' @ Error err @ '' from telegram, response body is '' @ [])
                  fx2)
           | (Inr (Inr telegramResponseBody), fx2) \<Rightarrow>
               (Inr (), w,
                logPrintf (''successfully distributed to chat id '' @
                  Itoa (ID (Chat (Message update)))) fx2)))"

subsection \<open>The second implementation\<close>

definition parseIncomingRequest2 :: "env \<Rightarrow> string \<Rightarrow> effects \<Rightarrow> (error + Update) \<times> effects" where
  "parseIncomingRequest2 e body fx =
     (case jsonDecode e body of
        (update, Some err) \<Rightarrow>
          (Inl (JSONError err), logPrintf (''could not decode incoming update '' @ err) fx)
      | (update, None) \<Rightarrow>
          if UpdateID update = 0 then
            (Inl (New ''invalid update id of 0 indicates failure to parse incoming update''),
             logPrintf ''invalid update id, got update id = 0'' fx)
          else (Inr update, fx))"

text \<open>
  A POST of the second \<open>sendToClient\<close>: \<open>response, _ := http.PostForm(...)\<close> and then
  \<open>response.Body\<close>, which panics on a nil response. (With \<open>defer response.Body.Close()\<close> the
  operand \<open>response.Body\<close> is evaluated at the \<open>defer\<close> statement, so the panic is there too.)
\<close>

definition postAndClose :: "env \<Rightarrow> Values \<Rightarrow> effects \<Rightarrow> (panic + unit) \<times> effects" where
  "postAndClose e form fx =
     (let (res, fx1) = httpPostForm e (telegramAPI e) form fx
      in case postResponse res of
           None \<Rightarrow> (Inl NilPointerDereference, fx1)
         | Some response \<Rightarrow> (Inr (), fx1))"

definition sendToClient2 :: "env \<Rightarrow> int \<Rightarrow> string \<Rightarrow> effects \<Rightarrow> (panic + unit) \<times> effects" where
  "sendToClient2 e chatID incomingText fx =
     (case
        (if incomingText = ''/start'' then
           (case postAndClose e [(''chat_id'', [Itoa chatID]), (''text'', [greeting])] fx of
              (Inl p, fx1) \<Rightarrow> (Inl p, fx1)
            | (Inr u, fx1) \<Rightarrow> (Inr [], fx1))
         else
           getMovies e (Split (ReplaceAll incomingText (CHR '' '') []) (CHR '','')) fx)
      of
        (Inl p, fx1) \<Rightarrow> (Inl p, fx1)
      | (Inr movies, fx1) \<Rightarrow>
          postAndClose e [(''chat_id'', [Itoa chatID]), (''text'', [movies])] fx1)"

definition Handler2 ::
  "env \<Rightarrow> ResponseWriter \<Rightarrow> string \<Rightarrow> (panic + unit) \<times> ResponseWriter \<times> effects" where
  "Handler2 e w body =
     (case parseIncomingRequest2 e body no_effects of
        (Inl err, fx1) \<Rightarrow>
          (Inr (), w, logPrintf (''error parsing incoming update, '' @ Error err) fx1)
      | (Inr update, fx1) \<Rightarrow>
          (case sendToClient2 e (ID (Chat (Message update)))
                  (ToLower e (Text (Message update))) fx1 of
             (r, fx2) \<Rightarrow> (r, w, fx2)))"
subsection \<open>Definitions used to state the properties\<close>

text \<open>\<open>strings.Join\<close> with a one-byte separator: the inverse of \<open>Split\<close>.\<close>

fun Join :: "string list \<Rightarrow> char \<Rightarrow> string" where
  "Join [] sep = []"
| "Join [k] sep = k"
| "Join (k # k' # ks) sep = k @ sep # Join (k' # ks) sep"

text \<open>
  Keyword extraction as the specification words it, for comparison with \<open>getKeywords\<close>:
  strip all whitespace from the text (here the ASCII whitespace bytes: tab, line feed,
  vertical tab, form feed, carriage return and space), then split on comma.
\<close>

definition getKeywords_spec :: "string \<Rightarrow> string list" where
  "getKeywords_spec incomingText =
     Split (filter (\<lambda>c. c \<notin> set [CHR 0x09, CHR 0x0A, CHR 0x0B, CHR 0x0C, CHR 0x0D, CHR 0x20])
       incomingText) (CHR '','')"

text \<open>
  Title extraction as the specification words it, for comparison with the callback of
  \<open>getMovies\<close>: for each match, the trimmed text of its first nested text-bearing child,
  followed by a newline, in document order.
\<close>

fun firstTextBearingChild :: "node \<Rightarrow> string" where
  "firstTextBearingChild (ElementNode tag attrs cs) =
     (case filter (\<lambda>c. nodeText c \<noteq> []) cs of
        [] \<Rightarrow> []
      | c # rest \<Rightarrow> nodeText c)"
| "firstTextBearingChild (TextNode d) = []"
| "firstTextBearingChild (CommentNode d) = []"

definition getMovies_spec :: "node list \<Rightarrow> string" where
  "getMovies_spec doc =
     concat (map (\<lambda>el. TrimSpace (firstTextBearingChild el) @ [CHR 0x0A]) (Find doc))"

text \<open>
  Concrete inputs. \<open>textUpdate c t\<close> is an update with identifier \<open>1\<close> that carries the text
  \<open>t\<close> from chat \<open>c\<close>. \<open>fixture update page answer\<close> is an environment in which the request
  body decodes to \<open>update\<close>, every fetch of the scraper gives \<open>page\<close>, and the \<open>n\<close>-th POST
  of the request is answered by \<open>answer n\<close>.
\<close>

definition textUpdate :: "int \<Rightarrow> string \<Rightarrow> Update" where
  "textUpdate c t =
     \<lparr>UpdateID = 1,
      Message = \<lparr>Text = t, Chat = \<lparr>ID = c\<rparr>,
                 Audio = \<lparr>Audio.FileID = [], Duration = 0\<rparr>,
                 Voice = \<lparr>Audio.FileID = [], Duration = 0\<rparr>,
                 Document = \<lparr>Document.FileID = [], FileName = []\<rparr>\<rparr>\<rparr>"

definition fixture :: "Update \<Rightarrow> string + node list \<Rightarrow> (nat \<Rightarrow> post_result) \<Rightarrow> env" where
  "fixture update page answer =
     \<lparr>getenv = (\<lambda>name. if name = BOT_TOKEN_ENV then ''TOKEN'' else []),
      jsonDecode = (\<lambda>body. (update, None)),
      unicodeLower = (\<lambda>s. s),
      postForm = (\<lambda>n u form. answer n),
      visit = (\<lambda>u. page)\<rparr>"

definition answered :: "int \<Rightarrow> string \<Rightarrow> post_result" where
  "answered code body = PostResponded \<lparr>StatusCode = code, Body = Inr body\<rparr>"

text \<open>
  A result page with two matching headings, each holding its title in a link, and one \<open>h3\<close>
  of another class.
\<close>

definition listingPage :: "node list" where
  "listingPage =
     [ElementNode ''html'' []
       [ElementNode ''body'' []
         [ElementNode ''h3'' [(''class'', ''lister-item-header'')]
            [ElementNode ''a'' [(''href'', ''/title/tt1'')] [TextNode ''Movie One'']],
          ElementNode ''h3'' [(''class'', ''findSectionHeader'')]
            [ElementNode ''a'' [] [TextNode ''Keywords'']],
          ElementNode ''div'' []
            [ElementNode ''h3'' [(''class'', ''lister-item-header'')]
               [ElementNode ''a'' [(''href'', ''/title/tt2'')] [TextNode ''Movie Two'']]]]]]"

text \<open>A result page whose one matching heading has an index before the title.\<close>

definition indexedPage :: "node list" where
  "indexedPage =
     [ElementNode ''h3'' [(''class'', ''lister-item-header'')]
        [ElementNode ''span'' [(''class'', ''lister-item-index'')] [TextNode ''1.''],
         ElementNode ''a'' [(''href'', ''/title/tt1'')] [TextNode ''Movie One'']]]"

text \<open>The POSTs of a request without their outcomes: the URL and the form values of each.\<close>

definition sent :: "effects \<Rightarrow> (string \<times> Values) list" where
  "sent fx = map (\<lambda>(u, form, res). (u, form)) (posts fx)"

text \<open>
  What the caller of the webhook observes, as \<open>net/http\<close> serves a handler: when the handler
  returns, the status it wrote, or 200 if it wrote none; when the handler panics, the server
  recovers and aborts the connection, so no status arrives.
\<close>

fun served :: "(panic + unit) \<times> ResponseWriter \<times> effects \<Rightarrow> int option" where
  "served (Inr u, w, fx) = Some (case wroteHeader w of None \<Rightarrow> 200 | Some code \<Rightarrow> code)"
| "served (Inl p, w, fx) = None"

text \<open>
  The query URL for a keyword list as the specification words it: the base search endpoint,
  the first keyword, and each later keyword after a literal \<open>%2C\<close>.
\<close>

definition queryURL :: "string list \<Rightarrow> string" where
  "queryURL kws = IMDB_URL @ hd kws @ concat (map (\<lambda>k. ''%2C'' @ k) (tl kws))"

section \<open>Properties\<close>

subsection \<open>Splitting and replacing\<close>

lemma ReplaceAll_filter: "ReplaceAll s c [] = filter (\<lambda>x. x \<noteq> c) s"
  by (induction s) auto

lemma SplitFrom_nonempty: "SplitFrom cur s sep \<noteq> []"
  by (induction s arbitrary: cur) auto

lemma Split_nonempty: "Split s sep \<noteq> []"
  by (simp add: Split_def SplitFrom_nonempty)

lemma Join_Cons: "ks \<noteq> [] \<Longrightarrow> Join (k # ks) sep = k @ sep # Join ks sep"
  by (cases ks) simp_all

lemma Join_SplitFrom: "Join (SplitFrom cur s sep) sep = cur @ s"
proof (induction s arbitrary: cur)
  case Nil
  show ?case by simp
next
  case (Cons c s)
  show ?case
  proof (cases "c = sep")
    case True
    then show ?thesis
      using Cons.IH[of "[]"] by (simp add: Join_Cons SplitFrom_nonempty)
  next
    case False
    then show ?thesis
      using Cons.IH[of "cur @ [c]"] by simp
  qed
qed

lemma SplitFrom_no_sep:
  "sep \<notin> set cur \<Longrightarrow> k \<in> set (SplitFrom cur s sep) \<Longrightarrow> sep \<notin> set k"
proof (induction s arbitrary: cur)
  case Nil
  then show ?case by simp
next
  case (Cons c s)
  show ?case
  proof (cases "c = sep")
    case True
    with Cons.prems have "k = cur \<or> k \<in> set (SplitFrom [] s sep)" by simp
    then show ?thesis
      using Cons.prems(1) Cons.IH[of "[]"] by auto
  next
    case False
    with Cons.prems have "k \<in> set (SplitFrom (cur @ [c]) s sep)" by simp
    then show ?thesis
      using False Cons.prems(1) Cons.IH[of "cur @ [c]"] by auto
  qed
qed

lemma SplitFrom_subset:
  "k \<in> set (SplitFrom cur s sep) \<Longrightarrow> set k \<subseteq> set cur \<union> set s"
proof (induction s arbitrary: cur)
  case Nil
  then show ?case by simp
next
  case (Cons c s)
  show ?case
  proof (cases "c = sep")
    case True
    with Cons.prems have "k = cur \<or> k \<in> set (SplitFrom [] s sep)" by simp
    then show ?thesis
      using Cons.IH[of "[]"] by auto
  next
    case False
    with Cons.prems have "k \<in> set (SplitFrom (cur @ [c]) s sep)" by simp
    then show ?thesis
      using Cons.IH[of "cur @ [c]"] by auto
  qed
qed

lemma getKeywords_nonempty: "getKeywords incomingText \<noteq> []"
  by (simp add: getKeywords_def Split_nonempty)

subsection \<open>Keyword extraction\<close>

text \<open>
  C1, as the code has it. Keyword extraction removes every space byte (U+0020) from the text
  and splits what is left on comma: joining the keywords with commas gives back the text
  without its spaces, no keyword holds a space or a comma, and two texts that differ only in
  spaces have the same keywords. The inputs \<open>"a, b,c"\<close> and \<open>"a,b,c"\<close> both yield
  \<open>["a","b","c"]\<close>.
\<close>

theorem getKeywords_strips_spaces:
  "getKeywords incomingText = Split (filter (\<lambda>c. c \<noteq> CHR '' '') incomingText) (CHR '','')
   \<and> Join (getKeywords incomingText) (CHR '','') = filter (\<lambda>c. c \<noteq> CHR '' '') incomingText
   \<and> (\<forall>k \<in> set (getKeywords incomingText). CHR '' '' \<notin> set k \<and> CHR '','' \<notin> set k)
   \<and> (filter (\<lambda>c. c \<noteq> CHR '' '') incomingText = filter (\<lambda>c. c \<noteq> CHR '' '') other
        \<longrightarrow> getKeywords incomingText = getKeywords other)
   \<and> getKeywords ''a, b,c'' = [''a'', ''b'', ''c'']
   \<and> getKeywords ''a,b,c'' = [''a'', ''b'', ''c'']"
proof -
  let ?t = "filter (\<lambda>c. c \<noteq> CHR '' '') incomingText"
  have eq: "getKeywords s = Split (filter (\<lambda>c. c \<noteq> CHR '' '') s) (CHR '','')" for s
    by (simp add: getKeywords_def ReplaceAll_filter)
  have join: "Join (getKeywords incomingText) (CHR '','') = ?t"
    by (simp add: eq Split_def Join_SplitFrom)
  have free: "CHR '' '' \<notin> set k \<and> CHR '','' \<notin> set k"
    if "k \<in> set (getKeywords incomingText)" for k
  proof
    from that have "set k \<subseteq> set ?t"
      using SplitFrom_subset[of k "[]" ?t "CHR '',''"] by (simp add: eq Split_def)
    then show "CHR '' '' \<notin> set k" by auto
    from that show "CHR '','' \<notin> set k"
      using SplitFrom_no_sep[of "CHR '',''" "[]" k ?t] by (simp add: eq Split_def)
  qed
  have ex1: "getKeywords ''a, b,c'' = [''a'', ''b'', ''c'']"
    by (simp add: getKeywords_def Split_def)
  have ex2: "getKeywords ''a,b,c'' = [''a'', ''b'', ''c'']"
    by (simp add: getKeywords_def Split_def)
  from eq[of incomingText] eq[of other] join free ex1 ex2 show ?thesis
    by auto
qed

theorem getKeywords_strips_spaces_witness:
  "getKeywords ''sci fi ,  heist'' = getKeywords ''scifi,heist''
   \<and> ''scifi'' \<in> set (getKeywords ''sci fi ,  heist'')
   \<and> CHR '' '' \<notin> set ''scifi'' \<and> CHR '','' \<notin> set ''scifi''
   \<and> Join (getKeywords ''sci fi ,  heist'') (CHR '','') = ''scifi,heist''"
  using getKeywords_strips_spaces[of "''sci fi ,  heist''" "''scifi,heist''"]
  by (simp add: getKeywords_def Split_def)

text \<open>
  The claim as written, that all whitespace is stripped, fails on a tab: the text \<open>a,<TAB>b\<close>
  keeps the tab in its second keyword, and does not yield the keywords of \<open>a,b\<close>.
\<close>

theorem getKeywords_tab_counterexample:
  "getKeywords (''a,'' @ [CHR 0x09] @ ''b'') = [''a'', [CHR 0x09, CHR ''b'']]
   \<and> getKeywords_spec (''a,'' @ [CHR 0x09] @ ''b'') = [''a'', ''b'']
   \<and> getKeywords (''a,'' @ [CHR 0x09] @ ''b'') \<noteq> getKeywords ''a,b''"
  by (simp add: getKeywords_def getKeywords_spec_def Split_def)

subsection \<open>The query URL and the scrape\<close>

lemma appendKeywords_eq:
  "i \<le> length kws \<Longrightarrow>
   appendKeywords kws i URL = Inr (URL @ concat (map (\<lambda>k. ''%2C'' @ k) (drop i kws)))"
proof (induction kws i URL rule: appendKeywords.induct)
  case (1 kws i URL)
  show ?case
  proof (cases "i < length kws")
    case True
    then have d: "drop i kws = kws ! i # drop (Suc i) kws"
      by (simp add: Cons_nth_drop_Suc)
    from True have "appendKeywords kws i URL = appendKeywords kws (i + 1) (URL @ ''%2C'' @ kws ! i)"
      by (subst appendKeywords.simps) (simp add: index_def)
    also have "\<dots> = Inr ((URL @ ''%2C'' @ kws ! i) @ concat (map (\<lambda>k. ''%2C'' @ k) (drop (i + 1) kws)))"
      using True by (intro "1.IH"[of "kws ! i"]) (simp_all add: index_def)
    finally show ?thesis by (simp add: d)
  next
    case False
    with 1 show ?thesis by (subst appendKeywords.simps) simp
  qed
qed

lemma getMovies_nonempty:
  "kws \<noteq> [] \<Longrightarrow>
   getMovies e kws fx =
     (Inr (Visit e (IMDB_URL @ hd kws @ concat (map (\<lambda>k. ''%2C'' @ k) (tl kws))) []),
      fx\<lparr>visited := visited fx @ [IMDB_URL @ hd kws @ concat (map (\<lambda>k. ''%2C'' @ k) (tl kws))]\<rparr>)"
  by (cases kws) (simp_all add: getMovies_def index_def appendKeywords_eq drop_Suc)

lemma getMovies_empty: "getMovies e [] fx = (Inl IndexOutOfRange, fx)"
  by (simp add: getMovies_def index_def)

lemma foldl_onHTML:
  "foldl onHTML movies els =
     movies @ concat (map (\<lambda>el. TrimSpace (selectionText (Children el)) @ [CHR 0x0A]) els)"
  by (induction els arbitrary: movies) (simp_all add: onHTML_def)

lemma TrimSpace_Movie_One: "TrimSpace ''Movie One'' = ''Movie One''"
  by (simp add: TrimSpace_def spaceRunes_def trimLeading.simps)

lemma TrimSpace_Movie_Two: "TrimSpace ''Movie Two'' = ''Movie Two''"
  by (simp add: TrimSpace_def spaceRunes_def trimLeading.simps)

lemma Find_listingPage:
  "Find listingPage =
     [ElementNode ''h3'' [(''class'', ''lister-item-header'')]
        [ElementNode ''a'' [(''href'', ''/title/tt1'')] [TextNode ''Movie One'']],
      ElementNode ''h3'' [(''class'', ''lister-item-header'')]
        [ElementNode ''a'' [(''href'', ''/title/tt2'')] [TextNode ''Movie Two'']]]"
  by (simp add: Find_def listingPage_def)

subsection \<open>Title extraction\<close>

text \<open>
  C2, as the code has it. For every scraped document, the title accumulator takes, for each
  element matching the heading selector, the text of all its child elements (with all their
  descendants) concatenated, trims it, appends a newline, and accumulates in document order.
  In particular, a document with exactly two matching headings whose child elements hold the
  texts \<open>"Movie One"\<close> and \<open>"Movie Two"\<close> produces \<open>"Movie One\nMovie Two\n"\<close>.
\<close>

theorem getMovies_titles:
  assumes "kws \<noteq> []"
    and "visit e (IMDB_URL @ hd kws @ concat (map (\<lambda>k. ''%2C'' @ k) (tl kws))) = Inr doc"
  shows "fst (getMovies e kws fx) =
           Inr (concat (map (\<lambda>el. TrimSpace (selectionText (Children el)) @ [CHR 0x0A])
                  (Find doc)))
         \<and> (Find doc = [one, two] \<and> selectionText (Children one) = ''Movie One''
              \<and> selectionText (Children two) = ''Movie Two''
             \<longrightarrow> fst (getMovies e kws fx) =
                   Inr (''Movie One'' @ [CHR 0x0A] @ ''Movie Two'' @ [CHR 0x0A]))"
proof -
  have g: "fst (getMovies e kws fx) =
      Inr (concat (map (\<lambda>el. TrimSpace (selectionText (Children el)) @ [CHR 0x0A]) (Find doc)))"
    using assms by (simp add: getMovies_nonempty Visit_def foldl_onHTML)
  show ?thesis
  proof (intro conjI impI)
    show "fst (getMovies e kws fx) =
      Inr (concat (map (\<lambda>el. TrimSpace (selectionText (Children el)) @ [CHR 0x0A]) (Find doc)))"
      by (rule g)
  next
    assume "Find doc = [one, two] \<and> selectionText (Children one) = ''Movie One''
              \<and> selectionText (Children two) = ''Movie Two''"
    then show "fst (getMovies e kws fx) =
                   Inr (''Movie One'' @ [CHR 0x0A] @ ''Movie Two'' @ [CHR 0x0A])"
      by (simp add: g TrimSpace_Movie_One TrimSpace_Movie_Two)
  qed
qed

theorem getMovies_titles_witness:
  "fst (getMovies (fixture (textUpdate 7 ''Drama, Heist'') (Inr listingPage) (\<lambda>n. answered 200 ''ok''))
          [''drama'', ''heist''] no_effects)
     = Inr (''Movie One'' @ [CHR 0x0A] @ ''Movie Two'' @ [CHR 0x0A])"
proof -
  let ?e = "fixture (textUpdate 7 ''Drama, Heist'') (Inr listingPage) (\<lambda>n. answered 200 ''ok'')"
  let ?one = "ElementNode ''h3'' [(''class'', ''lister-item-header'')]
        [ElementNode ''a'' [(''href'', ''/title/tt1'')] [TextNode ''Movie One'']]"
  let ?two = "ElementNode ''h3'' [(''class'', ''lister-item-header'')]
        [ElementNode ''a'' [(''href'', ''/title/tt2'')] [TextNode ''Movie Two'']]"
  have nonempty: "[''drama'', ''heist''] \<noteq> []"
    by simp
  have fetched:
    "visit ?e (IMDB_URL @ hd [''drama'', ''heist''] @
        concat (map (\<lambda>k. ''%2C'' @ k) (tl [''drama'', ''heist'']))) = Inr listingPage"
    by (simp add: fixture_def)
  have page: "Find listingPage = [?one, ?two] \<and> selectionText (Children ?one) = ''Movie One''
      \<and> selectionText (Children ?two) = ''Movie Two''"
    by (simp add: Find_listingPage selectionText_def)
  from getMovies_titles[OF nonempty fetched, of no_effects ?one ?two] page
  show ?thesis
    by blast
qed

text \<open>
  The claim as written, that the text of the first nested text-bearing child is taken, fails
  on a heading with an index before its title, as the scraped site has them: the code yields
  \<open>"1.Movie One\n"\<close>, the first text-bearing child alone would give \<open>"1.\n"\<close>.
\<close>

theorem getMovies_first_child_counterexample:
  "fst (getMovies (fixture (textUpdate 7 ''x'') (Inr indexedPage) (\<lambda>n. answered 200 ''ok''))
          [''x''] no_effects)
     = Inr (''1.Movie One'' @ [CHR 0x0A])
   \<and> getMovies_spec indexedPage = ''1.'' @ [CHR 0x0A]"
proof -
  have found: "Find indexedPage = indexedPage"
    by (simp add: Find_def indexedPage_def)
  have t1: "TrimSpace ''1.Movie One'' = ''1.Movie One''"
    by (simp add: TrimSpace_def spaceRunes_def trimLeading.simps)
  have t2: "TrimSpace ''1.'' = ''1.''"
    by (simp add: TrimSpace_def spaceRunes_def trimLeading.simps)
  have code: "concat (map (\<lambda>el. TrimSpace (selectionText (Children el)) @ [CHR 0x0A])
      (Find indexedPage)) = ''1.Movie One'' @ [CHR 0x0A]"
    unfolding found by (simp add: indexedPage_def selectionText_def t1)
  have spec: "getMovies_spec indexedPage = ''1.'' @ [CHR 0x0A]"
    unfolding getMovies_spec_def found by (simp add: indexedPage_def t2)
  have "fst (getMovies (fixture (textUpdate 7 ''x'') (Inr indexedPage) (\<lambda>n. answered 200 ''ok''))
          [''x''] no_effects)
     = Inr (concat (map (\<lambda>el. TrimSpace (selectionText (Children el)) @ [CHR 0x0A])
      (Find indexedPage)))"
    by (simp add: getMovies_nonempty Visit_def foldl_onHTML fixture_def)
  with code spec show ?thesis
    by simp
qed

subsection \<open>Decoding the inbound payload\<close>

text \<open>
  C3. Decoding an inbound payload fails if and only if the JSON decoder reports an error
  (the payload is not valid JSON of the expected shape) or the decoded update identifier is
  exactly zero, in which case the error is the invalid-identifier error; for every payload
  that decodes with a non-zero update identifier, decoding succeeds and the resulting
  \<open>Update\<close> is the decoded one, with its chat id and message text verbatim. Both
  implementations agree.
\<close>

theorem parseIncomingRequest_fails_iff:
  "((\<exists>err. fst (parseIncomingRequest e body fx) = Inl err)
      \<longleftrightarrow> (snd (jsonDecode e body) \<noteq> None \<or> UpdateID (fst (jsonDecode e body)) = 0))
   \<and> ((\<exists>err. fst (parseIncomingRequest2 e body fx) = Inl err)
      \<longleftrightarrow> (snd (jsonDecode e body) \<noteq> None \<or> UpdateID (fst (jsonDecode e body)) = 0))
   \<and> (jsonDecode e body = (update, None) \<and> UpdateID update = 0
      \<longrightarrow> fst (parseIncomingRequest e body fx) =
            Inl (New ''invalid update id. 0 indicates failure to parse incoming update'')
        \<and> fst (parseIncomingRequest2 e body fx) =
            Inl (New ''invalid update id of 0 indicates failure to parse incoming update''))
   \<and> (jsonDecode e body = (update, None) \<and> UpdateID update \<noteq> 0
      \<longrightarrow> (\<exists>decoded. parseIncomingRequest e body fx = (Inr decoded, fx)
            \<and> parseIncomingRequest2 e body fx = (Inr decoded, fx)
            \<and> decoded = update
            \<and> ID (Chat (Message decoded)) = ID (Chat (Message update))
            \<and> Text (Message decoded) = Text (Message update)))"
  by (cases "jsonDecode e body")
     (auto simp: parseIncomingRequest_def parseIncomingRequest2_def split: option.splits)

theorem parseIncomingRequest_fails_iff_witness:
  "parseIncomingRequest (fixture (textUpdate 7 ''Drama, Heist'') (Inr listingPage) (\<lambda>n. answered 200 ''ok''))
       ''body'' no_effects = (Inr (textUpdate 7 ''Drama, Heist''), no_effects)
   \<and> ID (Chat (Message (textUpdate 7 ''Drama, Heist''))) = 7
   \<and> Text (Message (textUpdate 7 ''Drama, Heist'')) = ''Drama, Heist''
   \<and> fst (parseIncomingRequest
        (fixture ((textUpdate 7 ''Drama, Heist'')\<lparr>UpdateID := 0\<rparr>) (Inr listingPage) (\<lambda>n. answered 200 ''ok''))
        ''body'' no_effects)
      = Inl (New ''invalid update id. 0 indicates failure to parse incoming update'')"
  using parseIncomingRequest_fails_iff[of
      "fixture (textUpdate 7 ''Drama, Heist'') (Inr listingPage) (\<lambda>n. answered 200 ''ok'')"
      "''body''" no_effects "textUpdate 7 ''Drama, Heist''"]
    parseIncomingRequest_fails_iff[of
      "fixture ((textUpdate 7 ''Drama, Heist'')\<lparr>UpdateID := 0\<rparr>) (Inr listingPage) (\<lambda>n. answered 200 ''ok'')"
      "''body''" no_effects "(textUpdate 7 ''Drama, Heist'')\<lparr>UpdateID := 0\<rparr>"]
  by (simp add: fixture_def textUpdate_def)

subsection \<open>The query URL\<close>

text \<open>
  C4. For every non-empty keyword list, the URL that Movie Lookup fetches is the base search
  endpoint followed by the first keyword and then, for each later keyword in order, the
  literal \<open>%2C\<close> and that keyword, with nothing escaped; for the keywords \<open>["x","y"]\<close> it is
  the base followed by \<open>x%2Cy\<close>.
\<close>

theorem getMovies_query_URL:
  "(kws \<noteq> [] \<longrightarrow>
      getMovies e kws fx =
        (Inr (Visit e (IMDB_URL @ hd kws @ concat (map (\<lambda>k. ''%2C'' @ k) (tl kws))) []),
         fx\<lparr>visited := visited fx @
            [IMDB_URL @ hd kws @ concat (map (\<lambda>k. ''%2C'' @ k) (tl kws))]\<rparr>))
   \<and> visited (snd (getMovies e [''x'', ''y''] fx)) = visited fx @ [IMDB_URL @ ''x%2Cy'']"
  by (simp add: getMovies_nonempty)

theorem getMovies_query_URL_witness:
  "visited (snd (getMovies (fixture (textUpdate 7 ''drama,a&b=c d,heist'') (Inr listingPage) (\<lambda>n. answered 200 ''ok''))
       [''drama'', ''a&b=c d'', ''heist''] no_effects))
     = [''https://www.imdb.com/search/keyword/?keywords=drama%2Ca&b=c d%2Cheist'']"
  using getMovies_query_URL[of "[''drama'', ''a&b=c d'', ''heist'']"
     "fixture (textUpdate 7 ''drama,a&b=c d,heist'') (Inr listingPage) (\<lambda>n. answered 200 ''ok'')" no_effects]
  by (simp add: IMDB_URL_def no_effects_def)

text \<open>
  C5. Movie Lookup indexes the first keyword unconditionally: on the empty list it panics
  with an index out of range, and on every non-empty list it returns without a panic, each
  index it reads (\<open>0\<close>, and \<open>1\<close> up to the length) being in bounds.
\<close>

theorem getMovies_index_in_bounds:
  "getMovies e [] fx = (Inl IndexOutOfRange, fx)
   \<and> (kws \<noteq> [] \<longrightarrow> (\<exists>movies fx'. getMovies e kws fx = (Inr movies, fx')))
   \<and> (kws \<noteq> [] \<longrightarrow> index kws 0 = Inr (hd kws)
        \<and> (\<forall>i. 1 \<le> i \<and> i < length kws \<longrightarrow> index kws i = Inr (kws ! i)))"
  by (cases kws) (simp_all add: getMovies_empty getMovies_nonempty index_def)

theorem getMovies_index_in_bounds_witness:
  "(\<exists>movies fx'. getMovies (fixture (textUpdate 7 ''x'') (Inl ''timeout'') (\<lambda>n. answered 200 ''ok''))
       [''x'', ''y''] no_effects = (Inr movies, fx'))
   \<and> index [''x'', ''y''] 0 = Inr ''x'' \<and> index [''x'', ''y''] 1 = Inr ''y''"
  using getMovies_index_in_bounds[of
      "fixture (textUpdate 7 ''x'') (Inl ''timeout'') (\<lambda>n. answered 200 ''ok'')" no_effects "[''x'', ''y'']"]
  by (simp add: index_def)

subsection \<open>Dispatch and the two handlers\<close>

lemma dispatch_posts:
  "posts (snd (dispatch e form fx)) =
     posts fx @ [(telegramAPI e, form, postForm e (length (posts fx)) (telegramAPI e) form)]"
  by (simp add: dispatch_def httpPostForm_def logPrintf_def Let_def
      split: post_result.splits sum.splits)

lemma dispatch_visited: "visited (snd (dispatch e form fx)) = visited fx"
  by (simp add: dispatch_def httpPostForm_def logPrintf_def Let_def
      split: post_result.splits sum.splits)

lemma dispatch_result:
  "fst (dispatch e form fx) =
     (case postForm e (length (posts fx)) (telegramAPI e) form of
        PostFailed err \<Rightarrow> Inl (PostFormError err)
      | PostRedirectRefused response err \<Rightarrow> Inl (PostFormError err)
      | PostResponded response \<Rightarrow>
          (case Body response of Inl err \<Rightarrow> Inl (ReadAllError err) | Inr body \<Rightarrow> Inr body))"
  by (simp add: dispatch_def httpPostForm_def Let_def split: post_result.splits sum.splits)

lemma getMovies_queryURL:
  "kws \<noteq> [] \<Longrightarrow>
   getMovies e kws fx = (Inr (Visit e (queryURL kws) []), fx\<lparr>visited := visited fx @ [queryURL kws]\<rparr>)"
  unfolding queryURL_def by (rule getMovies_nonempty)

lemma getMovies_getKeywords:
  "getMovies e (getKeywords t) fx =
     (Inr (Visit e (queryURL (getKeywords t)) []),
      fx\<lparr>visited := visited fx @ [queryURL (getKeywords t)]\<rparr>)"
  by (rule getMovies_queryURL) (rule getKeywords_nonempty)

text \<open>The first \<open>sendToClient\<close> is one dispatch, of the greeting or of the scraped titles.\<close>

lemma sendToClient_dispatch:
  "sendToClient e chatID t fx =
     (let d = dispatch e
            [(''chat_id'', [Itoa chatID]),
             (''text'', [if t = ''/start'' \<or> t = ''start'' then greeting
                         else Visit e (queryURL (getKeywords t)) []])]
            (if t = ''/start'' \<or> t = ''start'' then fx
             else fx\<lparr>visited := visited fx @ [queryURL (getKeywords t)]\<rparr>)
      in (Inr (fst d), snd d))"
  by (simp add: sendToClient_def getMovies_getKeywords Let_def split_beta)

lemma sendToClient_returns: "\<exists>r. fst (sendToClient e chatID t fx) = Inr r"
  by (simp add: sendToClient_dispatch Let_def)

lemma Handler_returns: "fst (Handler e w body) = Inr ()"
proof (cases "parseIncomingRequest e body no_effects")
  case (Pair r fx1)
  show ?thesis
  proof (cases r)
    case (Inl err)
    with Pair show ?thesis by (simp add: Handler_def)
  next
    case (Inr update)
    obtain s fx2 where s: "sendToClient e (ID (Chat (Message update)))
        (ToLower e (Text (Message update))) fx1 = (s, fx2)"
      by (cases "sendToClient e (ID (Chat (Message update)))
        (ToLower e (Text (Message update))) fx1")
    with sendToClient_returns[of e "ID (Chat (Message update))"
        "ToLower e (Text (Message update))" fx1]
    obtain r' where "s = Inr r'" by auto
    with Pair Inr s show ?thesis
      by (cases r') (simp_all add: Handler_def)
  qed
qed

lemma Handler_writer: "fst (snd (Handler e w body)) = w"
  by (simp add: Handler_def split: prod.splits sum.splits)

lemma Handler2_writer: "fst (snd (Handler2 e w body)) = w"
  by (simp add: Handler2_def split: prod.splits sum.splits)

lemma Handler_served: "served (Handler e w body) = Some (case wroteHeader w of None \<Rightarrow> 200 | Some code \<Rightarrow> code)"
  using Handler_returns[of e w body] Handler_writer[of e w body]
  by (cases "Handler e w body") auto


lemma postAndClose_eq:
  "postAndClose e form fx =
     ((case postResponse (postForm e (length (posts fx)) (telegramAPI e) form) of
         None \<Rightarrow> Inl NilPointerDereference
       | Some response \<Rightarrow> Inr ()),
      fx\<lparr>posts := posts fx @
        [(telegramAPI e, form, postForm e (length (posts fx)) (telegramAPI e) form)]\<rparr>)"
  by (simp add: postAndClose_def httpPostForm_def Let_def split: option.splits)

lemma sendToClient2_other:
  "t \<noteq> ''/start'' \<Longrightarrow>
   sendToClient2 e chatID t fx =
     postAndClose e [(''chat_id'', [Itoa chatID]), (''text'', [Visit e (queryURL (getKeywords t)) []])]
       (fx\<lparr>visited := visited fx @ [queryURL (getKeywords t)]\<rparr>)"
  using getMovies_getKeywords[of e t fx]
  by (simp add: sendToClient2_def getKeywords_def)

lemma sendToClient2_start:
  "sendToClient2 e chatID ''/start'' fx =
     (case postAndClose e [(''chat_id'', [Itoa chatID]), (''text'', [greeting])] fx of
        (Inl p, fx1) \<Rightarrow> (Inl p, fx1)
      | (Inr u, fx1) \<Rightarrow> postAndClose e [(''chat_id'', [Itoa chatID]), (''text'', [[]])] fx1)"
  by (simp add: sendToClient2_def split: prod.splits sum.splits)

lemma ToLower_commands: "ToLower e ''/start'' = ''/start''" "ToLower e ''start'' = ''start''"
  by (simp_all add: ToLower_def lowerByte_def)

lemma parse_ok:
  "jsonDecode e body = (update, None) \<Longrightarrow> UpdateID update \<noteq> 0 \<Longrightarrow>
   parseIncomingRequest e body fx = (Inr update, fx)"
  by (simp add: parseIncomingRequest_def)

lemma parse2_ok:
  "jsonDecode e body = (update, None) \<Longrightarrow> UpdateID update \<noteq> 0 \<Longrightarrow>
   parseIncomingRequest2 e body fx = (Inr update, fx)"
  by (simp add: parseIncomingRequest2_def)

lemma Handler_effects:
  assumes "jsonDecode e body = (update, None)" and "UpdateID update \<noteq> 0"
  shows "posts (snd (snd (Handler e w body))) =
           posts (snd (sendToClient e (ID (Chat (Message update)))
             (ToLower e (Text (Message update))) no_effects))"
  using assms
  by (simp add: Handler_def parse_ok logPrintf_def split: prod.splits sum.splits)

lemma Handler2_eq:
  assumes "jsonDecode e body = (update, None)" and "UpdateID update \<noteq> 0"
  shows "Handler2 e w body =
           (fst (sendToClient2 e (ID (Chat (Message update)))
              (ToLower e (Text (Message update))) no_effects), w,
            snd (sendToClient2 e (ID (Chat (Message update)))
              (ToLower e (Text (Message update))) no_effects))"
  using assms by (simp add: Handler2_def parse2_ok split: prod.splits)

lemma telegramAPI_fixture:
  "telegramAPI (fixture update page answer) = ''https://api.telegram.org/botTOKEN/sendMessage''"
  by (simp add: telegramAPI_def fixture_def TELEGRAM_API_BASE_URL_def BOT_TOKEN_ENV_def
      TELEGRAM_API_SEND_MESSAGE_def)

lemma Itoa_7: "Itoa 7 = ''7''"
  by (simp add: Itoa_def uitoa.simps)

lemma postResponse_None: "postResponse res = None \<longleftrightarrow> (\<exists>err. res = PostFailed err)"
  by (cases res) simp_all

text \<open>What a failing scrape leaves of the reply, in both implementations.\<close>

lemma Visit_failed: "visit e URL = Inl err \<Longrightarrow> Visit e URL movies = movies"
  by (simp add: Visit_def)

lemma scrape_failure_reply:
  assumes "visit e (queryURL (getKeywords t)) = Inl err" and "t \<noteq> ''/start''"
  shows "t \<noteq> ''start'' \<Longrightarrow> sent (snd (sendToClient e chatID t fx)) =
           sent fx @ [(telegramAPI e, [(''chat_id'', [Itoa chatID]), (''text'', [[]])])]"
    and "sent (snd (sendToClient2 e chatID t fx)) =
           sent fx @ [(telegramAPI e, [(''chat_id'', [Itoa chatID]), (''text'', [[]])])]"
    and "fst (sendToClient2 e chatID t fx) = Inl NilPointerDereference \<longleftrightarrow>
           postResponse (postForm e (length (posts fx)) (telegramAPI e)
             [(''chat_id'', [Itoa chatID]), (''text'', [[]])]) = None"
  using assms
  by (simp_all add: sent_def sendToClient_dispatch Let_def dispatch_posts sendToClient2_other
      postAndClose_eq Visit_failed split: option.splits)

text \<open>The start command, on the lower-cased text the handlers compare.\<close>

lemma ToLower_mixed_case:
  "ToLower e ''/START'' = ''/start''" "ToLower e ''Start'' = ''start''"
  by (simp_all add: ToLower_def lowerByte_def)

lemma queryURL_start: "queryURL (getKeywords ''start'') = IMDB_URL @ ''start''"
  by (simp add: queryURL_def getKeywords_def Split_def)

lemma Handler_greets:
  assumes "jsonDecode e body = (update, None)" and "UpdateID update \<noteq> 0"
    and "ToLower e (Text (Message update)) = ''/start'' \<or> ToLower e (Text (Message update)) = ''start''"
  shows "sent (snd (snd (Handler e w body))) =
           [(telegramAPI e,
             [(''chat_id'', [Itoa (ID (Chat (Message update)))]), (''text'', [greeting])])]"
  using assms
  by (auto simp: sent_def Handler_effects sendToClient_dispatch Let_def dispatch_posts
      no_effects_def)

lemma Handler2_greets:
  assumes "jsonDecode e body = (update, None)" and "UpdateID update \<noteq> 0"
    and "ToLower e (Text (Message update)) = ''/start''"
  shows "\<exists>rest. sent (snd (snd (Handler2 e w body))) =
           (telegramAPI e,
             [(''chat_id'', [Itoa (ID (Chat (Message update)))]), (''text'', [greeting])]) # rest"
  using assms
  by (simp add: sent_def Handler2_eq sendToClient2_start postAndClose_eq no_effects_def
      split: option.splits)

lemma Handler2_start_is_keyword:
  assumes "jsonDecode e body = (update, None)" and "UpdateID update \<noteq> 0"
    and "ToLower e (Text (Message update)) = ''start''"
  shows "sent (snd (snd (Handler2 e w body))) =
           [(telegramAPI e,
             [(''chat_id'', [Itoa (ID (Chat (Message update)))]),
              (''text'', [Visit e (IMDB_URL @ ''start'') []])])]"
  using assms
  by (simp add: sent_def Handler2_eq sendToClient2_other queryURL_start postAndClose_eq
      no_effects_def)

subsection \<open>The start command\<close>

text \<open>
  C7, as the code has it. Both handlers lower-case the text before they compare it. An
  inbound message whose lower-cased text is \<open>/start\<close> produces a reply whose text is the
  fixed greeting, whatever came before (the handlers keep no history): it is the only POST of
  the first implementation and the first POST of the second. The check for \<open>start\<close> exists in
  the first implementation only, where it triggers the same greeting reply; the second
  implementation takes \<open>start\<close> for a keyword and replies with the scraped titles. So the
  first implementation greets \<open>/START\<close> and \<open>Start\<close> like \<open>/start\<close> and \<open>start\<close>, and the
  second greets \<open>/START\<close> like \<open>/start\<close>.
\<close>

theorem start_command_greets:
  assumes "jsonDecode e body = (update, None)" and "UpdateID update \<noteq> 0"
  shows "(ToLower e (Text (Message update)) = ''/start''
            \<or> ToLower e (Text (Message update)) = ''start'' \<longrightarrow>
          sent (snd (snd (Handler e w body))) =
            [(telegramAPI e,
              [(''chat_id'', [Itoa (ID (Chat (Message update)))]), (''text'', [greeting])])])
       \<and> (ToLower e (Text (Message update)) = ''/start'' \<longrightarrow>
          (\<exists>rest. sent (snd (snd (Handler2 e w body))) =
            (telegramAPI e,
              [(''chat_id'', [Itoa (ID (Chat (Message update)))]), (''text'', [greeting])])
            # rest))
       \<and> (ToLower e (Text (Message update)) = ''start'' \<longrightarrow>
          sent (snd (snd (Handler2 e w body))) =
            [(telegramAPI e,
              [(''chat_id'', [Itoa (ID (Chat (Message update)))]),
               (''text'', [Visit e (IMDB_URL @ ''start'') []])])])
       \<and> (Text (Message update) = ''/start'' \<or> Text (Message update) = ''/START''
            \<or> Text (Message update) = ''start'' \<or> Text (Message update) = ''Start'' \<longrightarrow>
          sent (snd (snd (Handler e w body))) =
            [(telegramAPI e,
              [(''chat_id'', [Itoa (ID (Chat (Message update)))]), (''text'', [greeting])])])
       \<and> (Text (Message update) = ''/start'' \<or> Text (Message update) = ''/START'' \<longrightarrow>
          (\<exists>rest. sent (snd (snd (Handler2 e w body))) =
            (telegramAPI e,
              [(''chat_id'', [Itoa (ID (Chat (Message update)))]), (''text'', [greeting])])
            # rest))"
proof (intro conjI impI)
  assume "ToLower e (Text (Message update)) = ''/start''
            \<or> ToLower e (Text (Message update)) = ''start''"
  with assms show "sent (snd (snd (Handler e w body))) =
            [(telegramAPI e,
              [(''chat_id'', [Itoa (ID (Chat (Message update)))]), (''text'', [greeting])])]"
    by (rule Handler_greets)
next
  assume "ToLower e (Text (Message update)) = ''/start''"
  with assms show "\<exists>rest. sent (snd (snd (Handler2 e w body))) =
            (telegramAPI e,
              [(''chat_id'', [Itoa (ID (Chat (Message update)))]), (''text'', [greeting])])
            # rest"
    by (rule Handler2_greets)
next
  assume "ToLower e (Text (Message update)) = ''start''"
  with assms show "sent (snd (snd (Handler2 e w body))) =
            [(telegramAPI e,
              [(''chat_id'', [Itoa (ID (Chat (Message update)))]),
               (''text'', [Visit e (IMDB_URL @ ''start'') []])])]"
    by (rule Handler2_start_is_keyword)
next
  assume "Text (Message update) = ''/start'' \<or> Text (Message update) = ''/START''
            \<or> Text (Message update) = ''start'' \<or> Text (Message update) = ''Start''"
  then have "ToLower e (Text (Message update)) = ''/start''
            \<or> ToLower e (Text (Message update)) = ''start''"
    by (auto simp: ToLower_commands ToLower_mixed_case)
  with assms show "sent (snd (snd (Handler e w body))) =
            [(telegramAPI e,
              [(''chat_id'', [Itoa (ID (Chat (Message update)))]), (''text'', [greeting])])]"
    by (rule Handler_greets)
next
  assume "Text (Message update) = ''/start'' \<or> Text (Message update) = ''/START''"
  then have "ToLower e (Text (Message update)) = ''/start''"
    by (auto simp: ToLower_commands ToLower_mixed_case)
  with assms show "\<exists>rest. sent (snd (snd (Handler2 e w body))) =
            (telegramAPI e,
              [(''chat_id'', [Itoa (ID (Chat (Message update)))]), (''text'', [greeting])])
            # rest"
    by (rule Handler2_greets)
qed

theorem start_command_greets_witness:
  "sent (snd (snd (Handler (fixture (textUpdate 7 ''/START'') (Inr listingPage) (\<lambda>n. answered 200 ''ok''))
       \<lparr>wroteHeader = None, written = []\<rparr> ''body'')))
     = [(''https://api.telegram.org/botTOKEN/sendMessage'',
         [(''chat_id'', [''7'']), (''text'', [greeting])])]
   \<and> sent (snd (snd (Handler (fixture (textUpdate 7 ''Start'') (Inr listingPage) (\<lambda>n. answered 200 ''ok''))
       \<lparr>wroteHeader = None, written = []\<rparr> ''body'')))
     = [(''https://api.telegram.org/botTOKEN/sendMessage'',
         [(''chat_id'', [''7'']), (''text'', [greeting])])]
   \<and> (\<exists>rest. sent (snd (snd (Handler2 (fixture (textUpdate 7 ''/START'') (Inr listingPage) (\<lambda>n. answered 200 ''ok''))
       \<lparr>wroteHeader = None, written = []\<rparr> ''body'')))
     = (''https://api.telegram.org/botTOKEN/sendMessage'',
         [(''chat_id'', [''7'']), (''text'', [greeting])]) # rest)
   \<and> sent (snd (snd (Handler2 (fixture (textUpdate 7 ''Start'') (Inr listingPage) (\<lambda>n. answered 200 ''ok''))
       \<lparr>wroteHeader = None, written = []\<rparr> ''body'')))
     = [(''https://api.telegram.org/botTOKEN/sendMessage'',
         [(''chat_id'', [''7'']),
          (''text'', [''Movie One'' @ [CHR 0x0A] @ ''Movie Two'' @ [CHR 0x0A]])])]"
proof -
  let ?e1 = "fixture (textUpdate 7 ''/START'') (Inr listingPage) (\<lambda>n. answered 200 ''ok'')"
  let ?e2 = "fixture (textUpdate 7 ''Start'') (Inr listingPage) (\<lambda>n. answered 200 ''ok'')"
  let ?w = "\<lparr>wroteHeader = None, written = []\<rparr>"
  have d1: "jsonDecode ?e1 ''body'' = (textUpdate 7 ''/START'', None)"
    and d2: "jsonDecode ?e2 ''body'' = (textUpdate 7 ''Start'', None)"
    by (simp_all add: fixture_def)
  have i1: "UpdateID (textUpdate 7 ''/START'') \<noteq> 0" and i2: "UpdateID (textUpdate 7 ''Start'') \<noteq> 0"
    by (simp_all add: textUpdate_def)
  have f: "Text (Message (textUpdate 7 t)) = t" "ID (Chat (Message (textUpdate 7 t))) = 7" for t
    by (simp_all add: textUpdate_def)
  have v: "Visit ?e2 u [] = ''Movie One'' @ [CHR 0x0A] @ ''Movie Two'' @ [CHR 0x0A]" for u
    by (simp add: Visit_def fixture_def onHTML_def Find_listingPage selectionText_def
        TrimSpace_Movie_One TrimSpace_Movie_Two)
  from start_command_greets[OF d1 i1, of ?w] start_command_greets[OF d2 i2, of ?w]
  show ?thesis
    by (simp add: f v ToLower_mixed_case telegramAPI_fixture Itoa_7)
qed

text \<open>
  The claim as written fails in the second implementation, whose \<open>switch\<close> has no \<open>start\<close>
  case: on the text \<open>start\<close> it sends the scraped titles and no greeting, where the first
  implementation sends the greeting. And the \<open>/start\<close> check is not on the text as received:
  \<open>/START\<close> is greeted too.
\<close>

theorem Handler2_start_not_greeted_counterexample:
  "sent (snd (snd (Handler2 (fixture (textUpdate 7 ''start'') (Inr listingPage) (\<lambda>n. answered 200 ''ok''))
       \<lparr>wroteHeader = None, written = []\<rparr> ''body'')))
     = [(''https://api.telegram.org/botTOKEN/sendMessage'',
         [(''chat_id'', [''7'']),
          (''text'', [''Movie One'' @ [CHR 0x0A] @ ''Movie Two'' @ [CHR 0x0A]])])]
   \<and> greeting \<noteq> ''Movie One'' @ [CHR 0x0A] @ ''Movie Two'' @ [CHR 0x0A]
   \<and> sent (snd (snd (Handler (fixture (textUpdate 7 ''start'') (Inr listingPage) (\<lambda>n. answered 200 ''ok''))
       \<lparr>wroteHeader = None, written = []\<rparr> ''body'')))
     = [(''https://api.telegram.org/botTOKEN/sendMessage'',
         [(''chat_id'', [''7'']), (''text'', [greeting])])]
   \<and> ''/START'' \<noteq> ''/start''
   \<and> sent (snd (snd (Handler (fixture (textUpdate 7 ''/START'') (Inr listingPage) (\<lambda>n. answered 200 ''ok''))
       \<lparr>wroteHeader = None, written = []\<rparr> ''body'')))
     = [(''https://api.telegram.org/botTOKEN/sendMessage'',
         [(''chat_id'', [''7'']), (''text'', [greeting])])]"
proof -
  let ?e = "fixture (textUpdate 7 ''start'') (Inr listingPage) (\<lambda>n. answered 200 ''ok'')"
  let ?e' = "fixture (textUpdate 7 ''/START'') (Inr listingPage) (\<lambda>n. answered 200 ''ok'')"
  let ?w = "\<lparr>wroteHeader = None, written = []\<rparr>"
  have d: "jsonDecode ?e ''body'' = (textUpdate 7 ''start'', None)"
    and d': "jsonDecode ?e' ''body'' = (textUpdate 7 ''/START'', None)"
    by (simp_all add: fixture_def)
  have i: "UpdateID (textUpdate 7 t) \<noteq> 0" for t
    by (simp add: textUpdate_def)
  have f: "Text (Message (textUpdate 7 t)) = t" "ID (Chat (Message (textUpdate 7 t))) = 7" for t
    by (simp_all add: textUpdate_def)
  have v: "Visit ?e u [] = ''Movie One'' @ [CHR 0x0A] @ ''Movie Two'' @ [CHR 0x0A]" for u
    by (simp add: Visit_def fixture_def onHTML_def Find_listingPage selectionText_def
        TrimSpace_Movie_One TrimSpace_Movie_Two)
  have a: "sent (snd (snd (Handler2 ?e ?w ''body''))) =
      [(''https://api.telegram.org/botTOKEN/sendMessage'',
         [(''chat_id'', [''7'']),
          (''text'', [''Movie One'' @ [CHR 0x0A] @ ''Movie Two'' @ [CHR 0x0A]])])]"
    using Handler2_start_is_keyword[OF d i, of ?w]
    by (simp add: f v ToLower_commands telegramAPI_fixture Itoa_7)
  have b: "greeting \<noteq> ''Movie One'' @ [CHR 0x0A] @ ''Movie Two'' @ [CHR 0x0A]"
    by (simp add: greeting_def)
  have c: "sent (snd (snd (Handler ?e ?w ''body''))) =
      [(''https://api.telegram.org/botTOKEN/sendMessage'',
         [(''chat_id'', [''7'']), (''text'', [greeting])])]"
    using Handler_greets[OF d i, of ?w]
    by (simp add: f ToLower_commands telegramAPI_fixture Itoa_7)
  have c': "sent (snd (snd (Handler ?e' ?w ''body''))) =
      [(''https://api.telegram.org/botTOKEN/sendMessage'',
         [(''chat_id'', [''7'']), (''text'', [greeting])])]"
    using Handler_greets[OF d' i, of ?w]
    by (simp add: f ToLower_mixed_case telegramAPI_fixture Itoa_7)
  from a b c c' show ?thesis
    by simp
qed

subsection \<open>The reply dispatch\<close>

text \<open>
  C8. The first \<open>sendToClient\<close> makes exactly one POST, with no retry; it returns the error
  of \<open>http.PostForm\<close> if and only if that call reported one; and it never looks at the status
  code: whatever the status of the response, if its body can be read the body is returned as
  the success value (and if the body cannot be read, the read error is returned).
\<close>

theorem sendToClient_transmission_error:
  "\<exists>form. posts (snd (sendToClient e chatID incomingText fx)) =
             posts fx @ [(telegramAPI e, form,
                          postForm e (length (posts fx)) (telegramAPI e) form)]
     \<and> (\<forall>err. fst (sendToClient e chatID incomingText fx) = Inr (Inl (PostFormError err))
            \<longleftrightarrow> postErr (postForm e (length (posts fx)) (telegramAPI e) form) = Some err)
     \<and> (\<forall>response body.
           postForm e (length (posts fx)) (telegramAPI e) form = PostResponded response
             \<and> Body response = Inr body
           \<longrightarrow> fst (sendToClient e chatID incomingText fx) = Inr (Inr body))
     \<and> (\<forall>response err.
           postForm e (length (posts fx)) (telegramAPI e) form = PostResponded response
             \<and> Body response = Inl err
           \<longrightarrow> fst (sendToClient e chatID incomingText fx) = Inr (Inl (ReadAllError err)))"
  by (auto simp: sendToClient_dispatch Let_def dispatch_posts dispatch_result
      split: post_result.splits sum.splits)

theorem sendToClient_transmission_error_witness:
  "fst (sendToClient (fixture (textUpdate 7 ''drama'') (Inr listingPage)
          (\<lambda>n. answered 500 ''Internal Server Error'')) 7 ''drama'' no_effects)
     = Inr (Inr ''Internal Server Error'')
   \<and> fst (sendToClient (fixture (textUpdate 7 ''drama'') (Inr listingPage)
          (\<lambda>n. PostResponded \<lparr>StatusCode = 200, Body = Inl ''unexpected EOF''\<rparr>)) 7 ''drama'' no_effects)
     = Inr (Inl (ReadAllError ''unexpected EOF''))"
proof -
  let ?e = "fixture (textUpdate 7 ''drama'') (Inr listingPage)
          (\<lambda>n. answered 500 ''Internal Server Error'')"
  let ?e' = "fixture (textUpdate 7 ''drama'') (Inr listingPage)
          (\<lambda>n. PostResponded \<lparr>StatusCode = 200, Body = Inl ''unexpected EOF''\<rparr>)"
  have p: "postForm ?e n u form = PostResponded \<lparr>StatusCode = 500, Body = Inr ''Internal Server Error''\<rparr>"
    for n u form
    by (simp add: fixture_def answered_def)
  have p': "postForm ?e' n u form = PostResponded \<lparr>StatusCode = 200, Body = Inl ''unexpected EOF''\<rparr>"
    for n u form
    by (simp add: fixture_def)
  from sendToClient_transmission_error[of ?e 7 "''drama''" no_effects]
  have a: "fst (sendToClient ?e 7 ''drama'' no_effects) = Inr (Inr ''Internal Server Error'')"
    unfolding p by simp
  from sendToClient_transmission_error[of ?e' 7 "''drama''" no_effects]
  have b: "fst (sendToClient ?e' 7 ''drama'' no_effects) = Inr (Inl (ReadAllError ''unexpected EOF''))"
    unfolding p' by simp
  from a b show ?thesis by simp
qed

subsection \<open>The nil response in the second implementation\<close>

text \<open>
  C10, as the code has it. The second \<open>sendToClient\<close> discards the error of \<open>http.PostForm\<close>
  and selects \<open>response.Body\<close> unconditionally: it ends in a nil-pointer panic exactly when
  one of its POSTs obtained no response (\<open>PostForm\<close> returned a nil response with its error),
  and that POST is then its last; on every other outcome, an error that comes with a response
  included, it returns. It logs nothing, and the panic leaves \<open>Handler2\<close> too: the failure
  crashes the request instead of being logged and swallowed.
\<close>

theorem sendToClient2_crashes_without_response:
  "(fst (sendToClient2 e chatID incomingText fx) = Inl NilPointerDereference
      \<longleftrightarrow> (\<exists>(u, form, res) \<in> set (drop (length (posts fx))
                 (posts (snd (sendToClient2 e chatID incomingText fx)))).
             \<exists>err. res = PostFailed err))
   \<and> (fst (sendToClient2 e chatID incomingText fx) = Inl NilPointerDereference
      \<longleftrightarrow> (\<exists>err. snd (snd (last (posts (snd (sendToClient2 e chatID incomingText fx)))))
                  = PostFailed err))
   \<and> (fst (sendToClient2 e chatID incomingText fx) = Inl NilPointerDereference
       \<or> fst (sendToClient2 e chatID incomingText fx) = Inr ())
   \<and> length (posts fx) < length (posts (snd (sendToClient2 e chatID incomingText fx)))
   \<and> logs (snd (sendToClient2 e chatID incomingText fx)) = logs fx
   \<and> (jsonDecode e body = (update, None) \<and> UpdateID update \<noteq> 0 \<longrightarrow>
        fst (Handler2 e w body) =
          fst (sendToClient2 e (ID (Chat (Message update)))
                 (ToLower e (Text (Message update))) no_effects))"
proof -
  have h: "jsonDecode e body = (update, None) \<and> UpdateID update \<noteq> 0 \<longrightarrow>
        fst (Handler2 e w body) =
          fst (sendToClient2 e (ID (Chat (Message update)))
                 (ToLower e (Text (Message update))) no_effects)"
    by (simp add: Handler2_eq)
  show ?thesis
  proof (cases "incomingText = ''/start''")
    case False
    with h show ?thesis
      by (simp add: sendToClient2_other postAndClose_eq postResponse_None[symmetric]
          split: option.splits)
  next
    case True
    with h show ?thesis
      by (simp add: sendToClient2_start postAndClose_eq postResponse_None[symmetric]
          split: option.splits)
  qed
qed

theorem sendToClient2_crashes_without_response_witness:
  "fst (sendToClient2 (fixture (textUpdate 7 ''/start'') (Inr listingPage)
           (\<lambda>n. if n = 0 then answered 200 ''ok'' else PostFailed ''connection reset''))
         7 ''/start'' no_effects) = Inl NilPointerDereference
   \<and> fst (Handler2 (fixture (textUpdate 7 ''/start'') (Inr listingPage)
           (\<lambda>n. if n = 0 then answered 200 ''ok'' else PostFailed ''connection reset''))
         \<lparr>wroteHeader = None, written = []\<rparr> ''body'') = Inl NilPointerDereference
   \<and> logs (snd (sendToClient2 (fixture (textUpdate 7 ''/start'') (Inr listingPage)
           (\<lambda>n. if n = 0 then answered 200 ''ok'' else PostFailed ''connection reset''))
         7 ''/start'' no_effects)) = []"
proof -
  let ?e = "fixture (textUpdate 7 ''/start'') (Inr listingPage)
           (\<lambda>n. if n = 0 then answered 200 ''ok'' else PostFailed ''connection reset'')"
  have d: "jsonDecode ?e ''body'' = (textUpdate 7 ''/start'', None) \<and> UpdateID (textUpdate 7 ''/start'') \<noteq> 0"
    by (simp add: fixture_def textUpdate_def)
  have f: "Text (Message (textUpdate 7 ''/start'')) = ''/start''"
    "ID (Chat (Message (textUpdate 7 ''/start''))) = 7"
    by (simp_all add: textUpdate_def)
  have p: "postForm ?e n u form = (if n = 0 then answered 200 ''ok'' else PostFailed ''connection reset'')"
    for n u form
    by (simp add: fixture_def)
  have lastpost: "snd (snd (last (posts (snd (sendToClient2 ?e 7 ''/start'' no_effects)))))
      = PostFailed ''connection reset''"
    by (simp add: sendToClient2_start postAndClose_eq p answered_def no_effects_def)
  note t = sendToClient2_crashes_without_response[of ?e 7 "''/start''" no_effects "''body''"
      "textUpdate 7 ''/start''" "\<lparr>wroteHeader = None, written = []\<rparr>"]
  from t lastpost have crash: "fst (sendToClient2 ?e 7 ''/start'' no_effects) = Inl NilPointerDereference"
    by blast
  from t d have "fst (Handler2 ?e \<lparr>wroteHeader = None, written = []\<rparr> ''body'') =
      fst (sendToClient2 ?e (ID (Chat (Message (textUpdate 7 ''/start''))))
             (ToLower ?e (Text (Message (textUpdate 7 ''/start'')))) no_effects)"
    by blast
  then have crash2: "fst (Handler2 ?e \<lparr>wroteHeader = None, written = []\<rparr> ''body'') = Inl NilPointerDereference"
    by (simp add: f ToLower_commands crash)
  from t have "logs (snd (sendToClient2 ?e 7 ''/start'' no_effects)) = logs no_effects"
    by blast
  then have nolog: "logs (snd (sendToClient2 ?e 7 ''/start'' no_effects)) = []"
    by (simp add: no_effects_def)
  from crash crash2 nolog show ?thesis by blast
qed

text \<open>
  The claim as written, that every failure of the outbound call crashes the request, fails when
  the client's redirect policy gives up: \<open>PostForm\<close> returns an error with the last response,
  the second \<open>sendToClient\<close> closes that response's body and returns, and nothing is logged.
  The first \<open>sendToClient\<close> returns the error on the same input.
\<close>

theorem sendToClient2_redirect_refused_counterexample:
  "postErr (PostRedirectRefused \<lparr>StatusCode = 302, Body = Inl ''http: read on closed response body''\<rparr>
       ''stopped after 10 redirects'') = Some ''stopped after 10 redirects''
   \<and> sendToClient2
        (fixture (textUpdate 7 ''drama'') (Inr listingPage)
           (\<lambda>n. PostRedirectRefused
                  \<lparr>StatusCode = 302, Body = Inl ''http: read on closed response body''\<rparr>
                  ''stopped after 10 redirects''))
        7 ''drama'' no_effects
      = (Inr (),
         \<lparr>logs = [],
          posts = [(''https://api.telegram.org/botTOKEN/sendMessage'',
                    [(''chat_id'', [''7'']),
                     (''text'', [''Movie One'' @ [CHR 0x0A] @ ''Movie Two'' @ [CHR 0x0A]])],
                    PostRedirectRefused
                      \<lparr>StatusCode = 302, Body = Inl ''http: read on closed response body''\<rparr>
                      ''stopped after 10 redirects'')],
          visited = [''https://www.imdb.com/search/keyword/?keywords=drama'']\<rparr>)
   \<and> fst (Handler2
        (fixture (textUpdate 7 ''drama'') (Inr listingPage)
           (\<lambda>n. PostRedirectRefused
                  \<lparr>StatusCode = 302, Body = Inl ''http: read on closed response body''\<rparr>
                  ''stopped after 10 redirects''))
        \<lparr>wroteHeader = None, written = []\<rparr> ''body'') = Inr ()
   \<and> fst (sendToClient
        (fixture (textUpdate 7 ''drama'') (Inr listingPage)
           (\<lambda>n. PostRedirectRefused
                  \<lparr>StatusCode = 302, Body = Inl ''http: read on closed response body''\<rparr>
                  ''stopped after 10 redirects''))
        7 ''drama'' no_effects) = Inr (Inl (PostFormError ''stopped after 10 redirects''))"
proof -
  let ?res = "PostRedirectRefused
                  \<lparr>StatusCode = 302, Body = Inl ''http: read on closed response body''\<rparr>
                  ''stopped after 10 redirects''"
  let ?e = "fixture (textUpdate 7 ''drama'') (Inr listingPage) (\<lambda>n. ?res)"
  have d: "jsonDecode ?e ''body'' = (textUpdate 7 ''drama'', None)"
    by (simp add: fixture_def)
  have i: "UpdateID (textUpdate 7 ''drama'') \<noteq> 0"
    by (simp add: textUpdate_def)
  have f: "Text (Message (textUpdate 7 t)) = t" "ID (Chat (Message (textUpdate 7 t))) = 7" for t
    by (simp_all add: textUpdate_def)
  have l: "ToLower ?e ''drama'' = ''drama''"
    by (simp add: ToLower_def lowerByte_def)
  have k: "queryURL (getKeywords ''drama'') = ''https://www.imdb.com/search/keyword/?keywords=drama''"
    by (simp add: queryURL_def getKeywords_def Split_def IMDB_URL_def)
  have v: "Visit ?e u [] = ''Movie One'' @ [CHR 0x0A] @ ''Movie Two'' @ [CHR 0x0A]" for u
    by (simp add: Visit_def fixture_def onHTML_def Find_listingPage selectionText_def
        TrimSpace_Movie_One TrimSpace_Movie_Two)
  have p: "postForm ?e n u form = ?res" for n u form
    by (simp add: fixture_def)
  have s2: "sendToClient2 ?e 7 ''drama'' no_effects
      = (Inr (),
         \<lparr>logs = [],
          posts = [(''https://api.telegram.org/botTOKEN/sendMessage'',
                    [(''chat_id'', [''7'']),
                     (''text'', [''Movie One'' @ [CHR 0x0A] @ ''Movie Two'' @ [CHR 0x0A]])],
                    ?res)],
          visited = [''https://www.imdb.com/search/keyword/?keywords=drama'']\<rparr>)"
    by (simp add: sendToClient2_other k v postAndClose_eq p no_effects_def telegramAPI_fixture
        Itoa_7)
  have h2: "fst (Handler2 ?e \<lparr>wroteHeader = None, written = []\<rparr> ''body'') = Inr ()"
    by (simp add: Handler2_eq[OF d i] f l s2)
  have s1: "fst (sendToClient ?e 7 ''drama'' no_effects)
      = Inr (Inl (PostFormError ''stopped after 10 redirects''))"
    by (simp add: sendToClient_dispatch Let_def dispatch_result p)
  from s2 h2 s1 show ?thesis
    by simp
qed

subsection \<open>Where the second handler breaks what the first one keeps\<close>

text \<open>
  C6 at a failing input. The network is down: the scrape fetch fails and so does the reply
  POST. Both handlers send the empty text; the first returns, the second panics.
\<close>

theorem Handler2_scrape_failure_panics:
  "fst (Handler2 (fixture (textUpdate 7 ''Drama, Heist'') (Inl ''no route to host'')
                    (\<lambda>n. PostFailed ''no route to host''))
          \<lparr>wroteHeader = None, written = []\<rparr> ''body'') = Inl NilPointerDereference
   \<and> sent (snd (snd (Handler2 (fixture (textUpdate 7 ''Drama, Heist'') (Inl ''no route to host'')
                    (\<lambda>n. PostFailed ''no route to host''))
          \<lparr>wroteHeader = None, written = []\<rparr> ''body'')))
       = [(''https://api.telegram.org/botTOKEN/sendMessage'',
           [(''chat_id'', [''7'']), (''text'', [[]])])]
   \<and> fst (Handler (fixture (textUpdate 7 ''Drama, Heist'') (Inl ''no route to host'')
                    (\<lambda>n. PostFailed ''no route to host''))
          \<lparr>wroteHeader = None, written = []\<rparr> ''body'') = Inr ()"
proof -
  let ?e = "fixture (textUpdate 7 ''Drama, Heist'') (Inl ''no route to host'')
                    (\<lambda>n. PostFailed ''no route to host'')"
  have d: "jsonDecode ?e ''body'' = (textUpdate 7 ''Drama, Heist'', None)"
    by (simp add: fixture_def)
  have i: "UpdateID (textUpdate 7 ''Drama, Heist'') \<noteq> 0"
    by (simp add: textUpdate_def)
  have f: "Text (Message (textUpdate 7 t)) = t" "ID (Chat (Message (textUpdate 7 t))) = 7" for t
    by (simp_all add: textUpdate_def)
  have l: "ToLower ?e ''Drama, Heist'' = ''drama, heist''"
    by (simp add: ToLower_def lowerByte_def)
  have v: "Visit ?e u [] = []" for u
    by (simp add: Visit_def fixture_def)
  have p: "postForm ?e n u form = PostFailed ''no route to host''" for n u form
    by (simp add: fixture_def)
  show ?thesis
    by (simp add: Handler2_eq[OF d i] f l sendToClient2_other v postAndClose_eq p sent_def
        no_effects_def telegramAPI_fixture Itoa_7 Handler_returns)
qed

text \<open>
  C9 at a failing input. The reply POST obtains no response. Neither handler touches the
  response writer; the first returns, so its caller gets the implicit 200, the second panics,
  so its caller gets no status.
\<close>

theorem Handler2_post_failure_not_served:
  "Handler2 (fixture (textUpdate 7 ''drama'') (Inr listingPage) (\<lambda>n. PostFailed ''connection refused''))
       \<lparr>wroteHeader = None, written = []\<rparr> ''body''
     = (Inl NilPointerDereference, \<lparr>wroteHeader = None, written = []\<rparr>,
        \<lparr>logs = [],
         posts = [(''https://api.telegram.org/botTOKEN/sendMessage'',
                   [(''chat_id'', [''7'']),
                    (''text'', [''Movie One'' @ [CHR 0x0A] @ ''Movie Two'' @ [CHR 0x0A]])],
                   PostFailed ''connection refused'')],
         visited = [''https://www.imdb.com/search/keyword/?keywords=drama'']\<rparr>)
   \<and> served (Handler2 (fixture (textUpdate 7 ''drama'') (Inr listingPage)
                 (\<lambda>n. PostFailed ''connection refused''))
               \<lparr>wroteHeader = None, written = []\<rparr> ''body'') = None
   \<and> served (Handler (fixture (textUpdate 7 ''drama'') (Inr listingPage)
                 (\<lambda>n. PostFailed ''connection refused''))
               \<lparr>wroteHeader = None, written = []\<rparr> ''body'') = Some 200"
proof -
  let ?e = "fixture (textUpdate 7 ''drama'') (Inr listingPage) (\<lambda>n. PostFailed ''connection refused'')"
  have d: "jsonDecode ?e ''body'' = (textUpdate 7 ''drama'', None)"
    by (simp add: fixture_def)
  have i: "UpdateID (textUpdate 7 ''drama'') \<noteq> 0"
    by (simp add: textUpdate_def)
  have f: "Text (Message (textUpdate 7 t)) = t" "ID (Chat (Message (textUpdate 7 t))) = 7" for t
    by (simp_all add: textUpdate_def)
  have l: "ToLower ?e ''drama'' = ''drama''"
    by (simp add: ToLower_def lowerByte_def)
  have k: "queryURL (getKeywords ''drama'') = ''https://www.imdb.com/search/keyword/?keywords=drama''"
    by (simp add: queryURL_def getKeywords_def Split_def IMDB_URL_def)
  have v: "Visit ?e u [] = ''Movie One'' @ [CHR 0x0A] @ ''Movie Two'' @ [CHR 0x0A]" for u
    by (simp add: Visit_def fixture_def onHTML_def Find_listingPage selectionText_def
        TrimSpace_Movie_One TrimSpace_Movie_Two)
  have p: "postForm ?e n u form = PostFailed ''connection refused''" for n u form
    by (simp add: fixture_def)
  have h: "Handler2 ?e \<lparr>wroteHeader = None, written = []\<rparr> ''body''
     = (Inl NilPointerDereference, \<lparr>wroteHeader = None, written = []\<rparr>,
        \<lparr>logs = [],
         posts = [(''https://api.telegram.org/botTOKEN/sendMessage'',
                   [(''chat_id'', [''7'']),
                    (''text'', [''Movie One'' @ [CHR 0x0A] @ ''Movie Two'' @ [CHR 0x0A]])],
                   PostFailed ''connection refused'')],
         visited = [''https://www.imdb.com/search/keyword/?keywords=drama'']\<rparr>)"
    by (simp add: Handler2_eq[OF d i] f l sendToClient2_other k v postAndClose_eq p
        no_effects_def telegramAPI_fixture Itoa_7)
  show ?thesis
    unfolding h by (simp add: Handler_served)
qed


end
